theory Spec2Isabelle
  imports Main "HOL-Library.Word" "HOL-Library.Sublist"
begin

section \<open>SecureStorage: password-derived encryption of IndexedDB records\<close>

text \<open>
  A shallow embedding of the class \<open>SecureStorage\<close> of \<open>src/SecureStorage.ts\<close>.
  The class is a sequence of asynchronous methods over three pieces of state: the
  instance fields \<open>masterKey\<close> and \<open>ready\<close>, the browser's IndexedDB, and the browser's
  random generator. Each method is a function from the state before the call to its result
  and the state after it; every \<open>throw\<close> is an \<open>Inl\<close>. One caller issues the calls one
  after the other, each awaited to its end.
\<close>

subsection \<open>Bytes and errors\<close>

type_synonym byte = "8 word"
type_synonym bytes = "byte list"

text \<open>
  The \<open>Error\<close> objects of the class, one constructor per message:
  \<^item> \<open>InitFailed\<close>: "Impossible d'initialiser le chiffrement" (\<open>initialize\<close>);
  \<^item> \<open>KeyNotInitialized\<close>: "Cle de chiffrement non initialisee" (\<open>encrypt\<close>, \<open>decrypt\<close>);
  \<^item> \<open>EncryptFailed\<close>: "Echec du chiffrement des donnees" (\<open>encrypt\<close>);
  \<^item> \<open>DecryptFailed\<close>: "Echec du dechiffrement des donnees" (\<open>decrypt\<close>);
  \<^item> \<open>StoreFailed\<close>: "Impossible de stocker les donnees chiffrees" (\<open>storeEncrypted\<close>);
  \<^item> \<open>RetrieveFailed\<close>: "Impossible de recuperer les donnees dechiffrees"
    (\<open>retrieveDecrypted\<close>);
  \<^item> \<open>CurrentKeyNotInitialized\<close>: "Cle de chiffrement actuelle non initialisee"
    (\<open>changePassword\<close>, before its \<open>try\<close>);
  \<^item> \<open>ChangePasswordFailed\<close>: "Impossible de changer le mot de passe" (\<open>changePassword\<close>);
  \<^item> \<open>OpenDatabaseFailed name\<close>: "Impossible d'ouvrir la base de donnees name"
    (\<open>openDatabase\<close>);
  \<^item> \<open>OpenSecurityDbFailed\<close>: "Impossible d'acceder a la base de parametres de securite"
    (\<open>openSecurityDb\<close>);
  \<^item> \<open>NotFoundError\<close>: the exception of \<open>db.transaction([storeName])\<close> when the
    database has no object store of that name;
  \<^item> \<open>RequestError\<close>: the \<open>request.error\<close> with which \<open>changePassword\<close> rejects when its
    \<open>getAll\<close> request fires \<open>onerror\<close>.
\<close>

datatype error =
    InitFailed
  | KeyNotInitialized
  | EncryptFailed
  | DecryptFailed
  | StoreFailed
  | RetrieveFailed
  | CurrentKeyNotInitialized
  | ChangePasswordFailed
  | OpenDatabaseFailed string
  | OpenSecurityDbFailed
  | NotFoundError
  | RequestError

subsection \<open>The platform primitives\<close>

text \<open>
  The class calls Web Crypto, \<open>JSON\<close> and the text codecs; none of them is code of the
  repository, so they are parameters. A primitive that can throw returns \<open>None\<close> there.
  \<^item> \<open>deriveKey pw salt\<close>: \<open>importKey\<close> of the password bytes followed by \<open>deriveKey\<close>
    (PBKDF2, 100000 iterations, SHA-256, AES-GCM key of 256 bits);
  \<^item> \<open>AES_GCM_encrypt key nonce plaintext\<close>, \<open>AES_GCM_decrypt key nonce ciphertext\<close>:
    \<open>crypto.subtle.encrypt\<close> and \<open>crypto.subtle.decrypt\<close> on well-typed arguments;
  \<^item> \<open>JSON_stringify\<close>, \<open>JSON_parse\<close>; \<open>TextEncoder_encode\<close>, \<open>TextDecoder_decode\<close>.
  The type \<open>'key\<close> is the opaque \<open>CryptoKey\<close>, \<open>'val\<close> the type of the caller's data.
\<close>

record ('key, 'val) platform =
  deriveKey :: "bytes \<Rightarrow> bytes \<Rightarrow> 'key option"
  AES_GCM_encrypt :: "'key \<Rightarrow> bytes \<Rightarrow> bytes \<Rightarrow> bytes option"
  AES_GCM_decrypt :: "'key \<Rightarrow> bytes \<Rightarrow> bytes \<Rightarrow> bytes option"
  JSON_stringify :: "'val \<Rightarrow> string option"
  JSON_parse :: "string \<Rightarrow> 'val option"
  TextEncoder_encode :: "string \<Rightarrow> bytes"
  TextDecoder_decode :: "bytes \<Rightarrow> string"

definition SALT_LENGTH :: nat where "SALT_LENGTH = 16"
definition IV_LENGTH :: nat where "IV_LENGTH = 12"

subsection \<open>The browser: IndexedDB, random generator, clock\<close>

text \<open>
  A record at rest is \<open>{key, encryptedData, iv, timestamp}\<close>; an object store (key path
  \<open>key\<close>) is the list of its records, each with its key, in the order of the keys, and
  \<open>getAll\<close> yields them in that order. A database is a map from the names of its object
  stores. The class does not wait for its \<open>put\<close> requests nor look at their outcome; they
  are taken to succeed.
\<close>

record item =
  encryptedData :: bytes
  iv :: bytes
  timestamp :: nat

type_synonym 'k object_store = "('k \<times> item) list"

text \<open>
  \<^item> \<open>databases\<close>: the databases that exist, by name (all of version 1, the only version
    the class opens);
  \<^item> \<open>key_before a b\<close>: IndexedDB's order of keys, \<open>a\<close> sorts strictly before \<open>b\<close>;
  \<^item> \<open>open_error name\<close>: the request \<open>indexedDB.open(name, 1)\<close> fires \<open>onerror\<close>;
  \<^item> \<open>getAll_error name store\<close>: the request \<open>store.getAll()\<close> on that store fires
    \<open>onerror\<close>;
  \<^item> \<open>salt_record\<close>: the value of the record \<open>{id: "salt", value}\<close> of the store
    \<open>params\<close> of the database \<open>SecureStorageParams\<close>, when there is one;
    \<open>params_open_error\<close>: opening that database fires \<open>onerror\<close>. The callers' databases are
    taken to have other names;
  \<^item> \<open>entropy\<close>: the bytes \<open>crypto.getRandomValues\<close> is going to deliver, \<open>drawn\<close>: how many
    of them it has delivered;
  \<^item> \<open>now\<close>: the value of \<open>new Date().getTime()\<close>; the calls below read it and do not
    advance it.
\<close>

record 'k world =
  databases :: "string \<Rightarrow> (string \<Rightarrow> 'k object_store option) option"
  key_before :: "'k \<Rightarrow> 'k \<Rightarrow> bool"
  open_error :: "string \<Rightarrow> bool"
  getAll_error :: "string \<Rightarrow> string \<Rightarrow> bool"
  salt_record :: "bytes option"
  params_open_error :: bool
  entropy :: "nat \<Rightarrow> byte"
  drawn :: nat
  now :: nat

definition getRandomValues :: "nat \<Rightarrow> 'k world \<Rightarrow> bytes \<times> 'k world" where
  "getRandomValues n w =
     (map (entropy w) [drawn w ..< drawn w + n], w\<lparr>drawn := drawn w + n\<rparr>)"

text \<open>
  \<open>openDatabase(dbName, storeName)\<close>: the open request fails, or the database does not
  exist yet and \<open>onupgradeneeded\<close> creates it with the one object store \<open>storeName\<close>, or it
  exists (at version 1, so no upgrade runs and no store is added).
\<close>

definition openDatabase :: "string \<Rightarrow> string \<Rightarrow> 'k world \<Rightarrow> error + 'k world" where
  "openDatabase dbName storeName w =
     (if open_error w dbName then Inl (OpenDatabaseFailed dbName)
      else case databases w dbName of
             None \<Rightarrow> Inr (w\<lparr>databases := (databases w)(dbName \<mapsto> [storeName \<mapsto> []])\<rparr>)
           | Some stores \<Rightarrow> Inr w)"

text \<open>
  \<open>db.transaction([storeName], mode).objectStore(storeName)\<close> on an open database: the
  records of the store, or \<open>NotFoundError\<close>.
\<close>

definition objectStore :: "string \<Rightarrow> string \<Rightarrow> 'k world \<Rightarrow> error + 'k object_store" where
  "objectStore dbName storeName w =
     (case databases w dbName of
        None \<Rightarrow> Inl NotFoundError
      | Some stores \<Rightarrow>
          (case stores storeName of None \<Rightarrow> Inl NotFoundError | Some recs \<Rightarrow> Inr recs))"

text \<open>
  \<open>store.getAll()\<close> as \<open>changePassword\<close> awaits it, in a \<open>Promise\<close> resolved by \<open>onsuccess\<close>
  with \<open>request.result\<close> and rejected by \<open>onerror\<close> with \<open>request.error\<close>.
\<close>

definition getAll ::
  "string \<Rightarrow> string \<Rightarrow> 'k object_store \<Rightarrow> 'k world \<Rightarrow> error + 'k object_store" where
  "getAll dbName storeName recs w =
     (if getAll_error w dbName storeName then Inl RequestError else Inr recs)"

text \<open>
  \<open>store.put({key, encryptedData, iv, timestamp})\<close>: replaces the record of that key where
  it is, or adds the record at the place of its key, before the first record whose key
  sorts after it.
\<close>

fun insert_record ::
  "('k \<Rightarrow> 'k \<Rightarrow> bool) \<Rightarrow> 'k \<Rightarrow> item \<Rightarrow> 'k object_store \<Rightarrow> 'k object_store" where
  "insert_record before key it [] = [(key, it)]"
| "insert_record before key it ((k, old) # recs) =
     (if k = key then (key, it) # recs
      else if before key k then (key, it) # (k, old) # recs
      else (k, old) # insert_record before key it recs)"

definition put :: "string \<Rightarrow> string \<Rightarrow> 'k \<Rightarrow> item \<Rightarrow> 'k world \<Rightarrow> 'k world" where
  "put dbName storeName key it w =
     (case databases w dbName of
        None \<Rightarrow> w
      | Some stores \<Rightarrow>
          (case stores storeName of
             None \<Rightarrow> w
           | Some recs \<Rightarrow>
               w\<lparr>databases := (databases w)(dbName \<mapsto>
                    stores(storeName \<mapsto> insert_record (key_before w) key it recs))\<rparr>))"

text \<open>
  \<open>store.get(key)\<close> returns an \<open>IDBRequest\<close>, whose \<open>result\<close> is the record (or
  \<open>undefined\<close>) once \<open>onsuccess\<close> has fired. \<open>changePassword\<close> wraps the request of
  \<open>getAll\<close> in a \<open>Promise\<close> resolved from \<open>onsuccess\<close> with \<open>request.result\<close>;
  \<open>retrieveDecrypted\<close> writes \<open>await store.get(key)\<close>, and \<open>await\<close> of an object that is
  not a promise is the object: the request itself. A request is an object, so it is never
  falsy, and it has no property \<open>encryptedData\<close> or \<open>iv\<close>: reading them gives
  \<open>undefined\<close> (\<open>None\<close> below).
\<close>

datatype 'a IDBRequest = IDBRequest (result: "'a option")

definition get :: "'k object_store \<Rightarrow> 'k \<Rightarrow> item IDBRequest" where
  "get recs key = IDBRequest (map_of recs key)"

fun falsy :: "'a IDBRequest \<Rightarrow> bool" where
  "falsy (IDBRequest r) = False"

fun request_encryptedData :: "'a IDBRequest \<Rightarrow> bytes option" where
  "request_encryptedData (IDBRequest r) = None"

fun request_iv :: "'a IDBRequest \<Rightarrow> bytes option" where
  "request_iv (IDBRequest r) = None"

subsection \<open>The instance\<close>

text \<open>
  \<open>masterKey\<close> is the field of that name (\<open>None\<close> for \<open>null\<close>); \<open>ready\<close> is the promise of
  the constructor's \<open>initialize\<close> once settled: \<open>True\<close> when it is fulfilled, \<open>False\<close> when
  it is rejected, which \<open>initialize\<close> does with \<open>InitFailed\<close> only.
\<close>

record 'key secure_storage =
  masterKey :: "'key option"
  ready :: bool

type_synonym ('key, 'k) state = "'key secure_storage \<times> 'k world"

text \<open>
  \<open>openSecurityDb()\<close> opens the parameter database, creating its store \<open>params\<close> on first
  use; \<open>saveSecurityParams(salt)\<close> opens it and puts the record \<open>{id: "salt", value: salt}\<close>.
\<close>

definition openSecurityDb :: "'k world \<Rightarrow> error + 'k world" where
  "openSecurityDb w = (if params_open_error w then Inl OpenSecurityDbFailed else Inr w)"

definition saveSecurityParams :: "bytes \<Rightarrow> 'k world \<Rightarrow> error + 'k world" where
  "saveSecurityParams salt w =
     (case openSecurityDb w of
        Inl e \<Rightarrow> Inl e
      | Inr w1 \<Rightarrow> Inr (w1\<lparr>salt_record := Some salt\<rparr>))"

text \<open>
  \<open>initialize(password, providedSalt)\<close>. The salt is \<open>providedSalt || getRandomValues(16)\<close>
  (a \<open>Uint8Array\<close> is truthy, also an empty one); \<open>getSecurityParams\<close> is not called, here
  or anywhere else in the class. \<open>masterKey\<close> is assigned before the salt is saved, so a
  failure of the save leaves the new key in the field.
\<close>

definition initialize ::
  "('key, 'val) platform \<Rightarrow> string \<Rightarrow> bytes option \<Rightarrow> ('key, 'k) state
     \<Rightarrow> (error + unit) \<times> ('key, 'k) state" where
  "initialize P password providedSalt s =
     (let (inst, w) = s;
          (salt, w1) = (case providedSalt of
                          Some salt \<Rightarrow> (salt, w)
                        | None \<Rightarrow> getRandomValues SALT_LENGTH w);
          passwordBuffer = TextEncoder_encode P password
      in case deriveKey P passwordBuffer salt of
           None \<Rightarrow> (Inl InitFailed, inst, w1)
         | Some k \<Rightarrow>
             (case saveSecurityParams salt w1 of
                Inl e \<Rightarrow> (Inl InitFailed, inst\<lparr>masterKey := Some k\<rparr>, w1)
              | Inr w2 \<Rightarrow> (Inr (), inst\<lparr>masterKey := Some k\<rparr>, w2)))"

text \<open>
  The constructor: \<open>masterKey = null\<close>, \<open>ready = initialize(password, salt)\<close>. It returns at
  once, with \<open>masterKey\<close> still \<open>null\<close> and \<open>initialize\<close> pending; \<open>SecureStorage\<close> below is
  the instance and the browser once that \<open>initialize\<close> has settled, which every method that
  awaits \<open>ready\<close> waits for. \<open>changePassword\<close> does not await \<open>ready\<close> and does not read it:
  called before \<open>initialize\<close> has settled, it runs on an instance whose \<open>masterKey\<close> is
  \<open>None\<close>, as it does after a failed key derivation.
\<close>

definition SecureStorage ::
  "('key, 'val) platform \<Rightarrow> string \<Rightarrow> bytes option \<Rightarrow> 'k world \<Rightarrow> ('key, 'k) state" where
  "SecureStorage P password salt w =
     (case initialize P password salt (\<lparr>masterKey = None, ready = True\<rparr>, w) of
        (Inl e, inst, w') \<Rightarrow> (inst\<lparr>ready := False\<rparr>, w')
      | (Inr u, inst, w') \<Rightarrow> (inst\<lparr>ready := True\<rparr>, w'))"

subsection \<open>encrypt and decrypt\<close>

text \<open>
  Both start with \<open>await this.ready\<close>, outside their \<open>try\<close>: a rejected \<open>ready\<close> is
  rethrown as it is. The nonce is drawn after \<open>JSON.stringify\<close> and before
  \<open>crypto.subtle.encrypt\<close>.
\<close>

definition encrypt ::
  "('key, 'val) platform \<Rightarrow> 'val \<Rightarrow> ('key, 'k) state \<Rightarrow> (error + bytes \<times> bytes) \<times> 'k world" where
  "encrypt P data s =
     (let (inst, w) = s in
      if \<not> ready inst then (Inl InitFailed, w)
      else case masterKey inst of
             None \<Rightarrow> (Inl KeyNotInitialized, w)
           | Some k \<Rightarrow>
               (case JSON_stringify P data of
                  None \<Rightarrow> (Inl EncryptFailed, w)
                | Some jsonString \<Rightarrow>
                    (let dataBuffer = TextEncoder_encode P jsonString;
                         (nonce, w1) = getRandomValues IV_LENGTH w
                     in case AES_GCM_encrypt P k nonce dataBuffer of
                          None \<Rightarrow> (Inl EncryptFailed, w1)
                        | Some ct \<Rightarrow> (Inr (ct, nonce), w1))))"

text \<open>
  \<open>crypto.subtle.decrypt\<close> as \<open>decrypt\<close> calls it: the declared parameter types are erased at
  run time, and \<open>undefined\<close> for the data or the nonce is a \<open>TypeError\<close>.
\<close>

fun crypto_subtle_decrypt ::
  "('key, 'val) platform \<Rightarrow> 'key \<Rightarrow> bytes option \<Rightarrow> bytes option \<Rightarrow> bytes option" where
  "crypto_subtle_decrypt P k (Some nonce) (Some ct) = AES_GCM_decrypt P k nonce ct"
| "crypto_subtle_decrypt P k nonce ct = None"

definition decrypt ::
  "('key, 'val) platform \<Rightarrow> bytes option \<Rightarrow> bytes option \<Rightarrow> 'key secure_storage
     \<Rightarrow> error + 'val" where
  "decrypt P ct nonce inst =
     (if \<not> ready inst then Inl InitFailed
      else case masterKey inst of
             None \<Rightarrow> Inl KeyNotInitialized
           | Some k \<Rightarrow>
               (case crypto_subtle_decrypt P k nonce ct of
                  None \<Rightarrow> Inl DecryptFailed
                | Some decryptedBuffer \<Rightarrow>
                    (case JSON_parse P (TextDecoder_decode P decryptedBuffer) of
                       None \<Rightarrow> Inl DecryptFailed
                     | Some v \<Rightarrow> Inr v)))"

subsection \<open>storeEncrypted and retrieveDecrypted\<close>

definition storeEncrypted ::
  "('key, 'val) platform \<Rightarrow> string \<Rightarrow> string \<Rightarrow> 'k \<Rightarrow> 'val \<Rightarrow> ('key, 'k) state
     \<Rightarrow> (error + unit) \<times> 'k world" where
  "storeEncrypted P dbName storeName key data s =
     (case encrypt P data s of
        (Inl e, w1) \<Rightarrow> (Inl StoreFailed, w1)
      | (Inr (ct, nonce), w1) \<Rightarrow>
          (case openDatabase dbName storeName w1 of
             Inl e \<Rightarrow> (Inl StoreFailed, w1)
           | Inr w2 \<Rightarrow>
               (case objectStore dbName storeName w2 of
                  Inl e \<Rightarrow> (Inl StoreFailed, w2)
                | Inr recs \<Rightarrow>
                    (Inr (),
                     put dbName storeName key
                       \<lparr>encryptedData = ct, iv = nonce, timestamp = now w2\<rparr> w2))))"

definition retrieveDecrypted ::
  "('key, 'val) platform \<Rightarrow> string \<Rightarrow> string \<Rightarrow> 'k \<Rightarrow> ('key, 'k) state
     \<Rightarrow> (error + 'val option) \<times> 'k world" where
  "retrieveDecrypted P dbName storeName key s =
     (let (inst, w) = s in
      case openDatabase dbName storeName w of
        Inl e \<Rightarrow> (Inl RetrieveFailed, w)
      | Inr w1 \<Rightarrow>
          (case objectStore dbName storeName w1 of
             Inl e \<Rightarrow> (Inl RetrieveFailed, w1)
           | Inr recs \<Rightarrow>
               (let res = get recs key in
                if falsy res then (Inr None, w1)
                else case decrypt P (request_encryptedData res) (request_iv res) inst of
                       Inl e \<Rightarrow> (Inl RetrieveFailed, w1)
                     | Inr v \<Rightarrow> (Inr (Some v), w1))))"

subsection \<open>changePassword\<close>

text \<open>
  The inner loop \<open>for (const item of allItems)\<close>: the field \<open>masterKey\<close> is set to
  \<open>oldKey\<close>, the record is decrypted, and \<open>storeEncrypted\<close> encrypts it again with
  \<open>this.masterKey\<close> as it is at that moment. The first exception leaves both loops.
\<close>

fun recrypt_items ::
  "('key, 'val) platform \<Rightarrow> 'key \<Rightarrow> string \<Rightarrow> string \<Rightarrow> 'k object_store \<Rightarrow> ('key, 'k) state
     \<Rightarrow> (error + unit) \<times> ('key, 'k) state" where
  "recrypt_items P oldKey dbName storeName [] s = (Inr (), s)"
| "recrypt_items P oldKey dbName storeName ((key, it) # allItems) s =
     (let (inst, w) = s;
          inst1 = inst\<lparr>masterKey := Some oldKey\<rparr>
      in case decrypt P (Some (encryptedData it)) (Some (iv it)) inst1 of
           Inl e \<Rightarrow> (Inl e, inst1, w)
         | Inr decryptedData \<Rightarrow>
             (case storeEncrypted P dbName storeName key decryptedData (inst1, w) of
                (Inl e, w') \<Rightarrow> (Inl e, inst1, w')
              | (Inr u, w') \<Rightarrow> recrypt_items P oldKey dbName storeName allItems (inst1, w')))"

text \<open>
  The outer loop \<open>for (const storeName of storeNames)\<close>: read all the records of the store,
  call \<open>initialize(newPassword)\<close> with no salt, run the inner loop.
\<close>

fun recrypt_stores ::
  "('key, 'val) platform \<Rightarrow> 'key \<Rightarrow> string \<Rightarrow> string \<Rightarrow> string list \<Rightarrow> ('key, 'k) state
     \<Rightarrow> (error + unit) \<times> ('key, 'k) state" where
  "recrypt_stores P oldKey newPassword dbName [] s = (Inr (), s)"
| "recrypt_stores P oldKey newPassword dbName (storeName # storeNames) s =
     (let (inst, w) = s in
      case openDatabase dbName storeName w of
        Inl e \<Rightarrow> (Inl e, inst, w)
      | Inr w1 \<Rightarrow>
          (case objectStore dbName storeName w1 of
             Inl e \<Rightarrow> (Inl e, inst, w1)
           | Inr store \<Rightarrow>
               (case getAll dbName storeName store w1 of
                  Inl e \<Rightarrow> (Inl e, inst, w1)
                | Inr allItems \<Rightarrow>
                    (case initialize P newPassword None (inst, w1) of
                       (Inl e, s2) \<Rightarrow> (Inl e, s2)
                     | (Inr u, s2) \<Rightarrow>
                         (case recrypt_items P oldKey dbName storeName allItems s2 of
                            (Inl e, s3) \<Rightarrow> (Inl e, s3)
                          | (Inr u, s3) \<Rightarrow>
                              recrypt_stores P oldKey newPassword dbName storeNames s3)))))"

definition changePassword ::
  "('key, 'val) platform \<Rightarrow> string \<Rightarrow> string \<Rightarrow> string list \<Rightarrow> ('key, 'k) state
     \<Rightarrow> (error + unit) \<times> ('key, 'k) state" where
  "changePassword P newPassword dbName storeNames s =
     (case masterKey (fst s) of
        None \<Rightarrow> (Inl CurrentKeyNotInitialized, s)
      | Some oldKey \<Rightarrow>
          (case recrypt_stores P oldKey newPassword dbName storeNames s of
             (Inl e, s') \<Rightarrow> (Inl ChangePasswordFailed, s')
           | (Inr u, s') \<Rightarrow> (Inr (), s')))"

subsection \<open>A run of \<open>encrypt\<close> calls\<close>

text \<open>
  \<open>encrypt_each P [d1, ..., dN]\<close> is \<open>await encrypt(d1); ...; await encrypt(dN)\<close> on one
  instance: the list of the results and the browser's state after the last call.
  \<open>random_block w i\<close> is the \<open>i\<close>-th block of \<open>IV_LENGTH\<close> bytes that the random
  generator of \<open>w\<close> is going to deliver.
\<close>

fun encrypt_each ::
  "('key, 'val) platform \<Rightarrow> 'val list \<Rightarrow> ('key, 'k) state
     \<Rightarrow> (error + bytes \<times> bytes) list \<times> 'k world" where
  "encrypt_each P [] s = ([], snd s)"
| "encrypt_each P (d # ds) s =
     (let (r, w1) = encrypt P d s;
          (rs, w2) = encrypt_each P ds (fst s, w1)
      in (r # rs, w2))"

text \<open>\<open>nonces rs\<close>: the nonces of the calls of a run that returned one, in the order of the calls.\<close>

definition nonces :: "(error + bytes \<times> bytes) list \<Rightarrow> bytes list" where
  "nonces rs = map (\<lambda>r. snd (projr r)) (filter (\<lambda>r. \<not> isl r) rs)"

definition random_block :: "'k world \<Rightarrow> nat \<Rightarrow> bytes" where
  "random_block w i =
     map (entropy w) [drawn w + IV_LENGTH * i ..< drawn w + IV_LENGTH * i + IV_LENGTH]"

subsection \<open>A small platform and browser for concrete runs\<close>

text \<open>
  Stand-ins for the primitives, small enough to compute with. The derived key is the
  password bytes followed by the salt; sealing prefixes the plaintext with the key and the
  nonce, and opening fails unless that prefix is the one of its own key and nonce (so a wrong
  key, a wrong nonce and a damaged ciphertext are all rejected); the data are strings, whose
  JSON text is the string between double quotes (character \<open>0x22\<close>), except the string
  \<open>!\<close>, which stands for a value that \<open>JSON.stringify\<close> throws on; text is encoded one
  byte per character. Keys are strings, in lexicographic order.
\<close>

fun string_before :: "string \<Rightarrow> string \<Rightarrow> bool" where
  "string_before [] [] = False"
| "string_before [] (d # ds) = True"
| "string_before (c # cs) [] = False"
| "string_before (c # cs) (d # ds) =
     ((of_char c :: nat) < of_char d \<or> (c = d \<and> string_before cs ds))"


definition demo_platform :: "(bytes, string) platform" where
  "demo_platform =
     \<lparr>deriveKey = (\<lambda>pw salt. Some (pw @ salt)),
      AES_GCM_encrypt = (\<lambda>k nonce pt. Some (k @ nonce @ pt)),
      AES_GCM_decrypt = (\<lambda>k nonce ct.
         if take (length k + length nonce) ct = k @ nonce
         then Some (drop (length k + length nonce) ct) else None),
      JSON_stringify = (\<lambda>v. if v = ''!'' then None else Some (CHR 0x22 # v @ [CHR 0x22])),
      JSON_parse = (\<lambda>t. case t of
                          [] \<Rightarrow> None
                        | c # r \<Rightarrow> if c = CHR 0x22 \<and> r \<noteq> [] \<and> last r = CHR 0x22
                                   then Some (butlast r) else None),
      TextEncoder_encode = map (\<lambda>c. of_nat (of_char c)),
      TextDecoder_decode = map (\<lambda>b. char_of (unat b))\<rparr>"

text \<open>
  A browser with no database yet, whose random generator delivers the bytes 0, 1, 2, ...
\<close>

definition world0 :: "string world" where
  "world0 =
     \<lparr>databases = Map.empty, key_before = string_before, open_error = (\<lambda>n. False),
      getAll_error = (\<lambda>n c. False),
      salt_record = None,
      params_open_error = False, entropy = (\<lambda>i. of_nat i), drawn = 0, now = 1000\<rparr>"

text \<open>
  The scenario of the README: \<open>new SecureStorage('p1')\<close>, then two \<open>storeEncrypted\<close> calls
  in the store \<open>c\<close> of the database \<open>db\<close>: \<open>X\<close> under the key \<open>a\<close>, \<open>Y\<close> under \<open>b\<close>.
\<close>

definition demo_new :: "(bytes, string) state" where
  "demo_new = SecureStorage demo_platform ''p1'' None world0"

definition demo_filled :: "(bytes, string) state" where
  "demo_filled =
     (fst demo_new,
      snd (storeEncrypted demo_platform ''db'' ''c'' ''b'' ''Y''
             (fst demo_new,
              snd (storeEncrypted demo_platform ''db'' ''c'' ''a'' ''X'' demo_new))))"

text \<open>
  A database \<open>db\<close> with two stores, as an application that creates its own stores has it,
  under the key of \<open>demo_new\<close>: the record of store \<open>a\<close> is damaged (its bytes are not a
  ciphertext of that key), the record of store \<open>b\<close> is the sealed JSON text of \<open>Y\<close>.
\<close>

definition demo_two_stores :: "(bytes, string) state" where
  "demo_two_stores =
     (fst demo_new,
      (snd demo_new)\<lparr>databases :=
         [''db'' \<mapsto>
            [''a'' \<mapsto> [(''k'', \<lparr>encryptedData = [1, 2, 3],
                                iv = [7, 7, 7, 7, 7, 7, 7, 7, 7, 7, 7, 7],
                                timestamp = 900\<rparr>)],
             ''b'' \<mapsto> [(''k'', \<lparr>encryptedData =
                                  [112, 49, 0, 1, 2, 3, 4, 5, 6, 7, 8, 9, 10, 11, 12, 13, 14, 15,
                                   7, 7, 7, 7, 7, 7, 7, 7, 7, 7, 7, 7, 34, 89, 34],
                                iv = [7, 7, 7, 7, 7, 7, 7, 7, 7, 7, 7, 7],
                                timestamp = 900\<rparr>)]]]\<rparr>)"

text \<open>The rotation of the README, \<open>changePassword('p2', 'db', ['c'])\<close>, after \<open>demo_filled\<close>.\<close>

definition demo_rotated :: "(error + unit) \<times> (bytes, string) state" where
  "demo_rotated = changePassword demo_platform ''p2'' ''db'' [''c''] demo_filled"

section \<open>Properties\<close>

subsection \<open>The concrete scenario, computed\<close>

lemmas demo_defs = demo_platform_def world0_def SecureStorage_def initialize_def
  getRandomValues_def SALT_LENGTH_def IV_LENGTH_def openSecurityDb_def saveSecurityParams_def
  storeEncrypted_def encrypt_def decrypt_def openDatabase_def objectStore_def getAll_def
  put_def

lemma demo_new_eq:
  "demo_new =
     (\<lparr>masterKey = Some [112, 49, 0, 1, 2, 3, 4, 5, 6, 7, 8, 9, 10, 11, 12, 13, 14, 15],
       ready = True\<rparr>,
      world0\<lparr>salt_record := Some [0, 1, 2, 3, 4, 5, 6, 7, 8, 9, 10, 11, 12, 13, 14, 15],
             drawn := 16\<rparr>)"
  by (simp add: demo_new_def demo_defs upt_rec)

lemma demo_filled_eq:
  "demo_filled =
     (\<lparr>masterKey = Some [112, 49, 0, 1, 2, 3, 4, 5, 6, 7, 8, 9, 10, 11, 12, 13, 14, 15],
       ready = True\<rparr>,
      world0\<lparr>databases :=
               [''db'' \<mapsto> [''c'' \<mapsto>
                  [(''a'', \<lparr>encryptedData =
                             [112, 49, 0, 1, 2, 3, 4, 5, 6, 7, 8, 9, 10, 11, 12, 13, 14, 15,
                              16, 17, 18, 19, 20, 21, 22, 23, 24, 25, 26, 27, 34, 88, 34],
                           iv = [16, 17, 18, 19, 20, 21, 22, 23, 24, 25, 26, 27],
                           timestamp = 1000\<rparr>),
                   (''b'', \<lparr>encryptedData =
                             [112, 49, 0, 1, 2, 3, 4, 5, 6, 7, 8, 9, 10, 11, 12, 13, 14, 15,
                              28, 29, 30, 31, 32, 33, 34, 35, 36, 37, 38, 39, 34, 89, 34],
                           iv = [28, 29, 30, 31, 32, 33, 34, 35, 36, 37, 38, 39],
                           timestamp = 1000\<rparr>)]]],
             salt_record := Some [0, 1, 2, 3, 4, 5, 6, 7, 8, 9, 10, 11, 12, 13, 14, 15],
             drawn := 40\<rparr>)"
  by (simp add: demo_filled_def demo_new_eq) (simp add: demo_defs upt_rec)

lemma demo_rotated_eq:
  "demo_rotated =
     (Inr (),
      \<lparr>masterKey = Some [112, 49, 0, 1, 2, 3, 4, 5, 6, 7, 8, 9, 10, 11, 12, 13, 14, 15],
       ready = True\<rparr>,
      world0\<lparr>databases :=
               [''db'' \<mapsto> [''c'' \<mapsto>
                  [(''a'', \<lparr>encryptedData =
                             [112, 49, 0, 1, 2, 3, 4, 5, 6, 7, 8, 9, 10, 11, 12, 13, 14, 15,
                              56, 57, 58, 59, 60, 61, 62, 63, 64, 65, 66, 67, 34, 88, 34],
                           iv = [56, 57, 58, 59, 60, 61, 62, 63, 64, 65, 66, 67],
                           timestamp = 1000\<rparr>),
                   (''b'', \<lparr>encryptedData =
                             [112, 49, 0, 1, 2, 3, 4, 5, 6, 7, 8, 9, 10, 11, 12, 13, 14, 15,
                              68, 69, 70, 71, 72, 73, 74, 75, 76, 77, 78, 79, 34, 89, 34],
                           iv = [68, 69, 70, 71, 72, 73, 74, 75, 76, 77, 78, 79],
                           timestamp = 1000\<rparr>)]]],
             salt_record := Some [40, 41, 42, 43, 44, 45, 46, 47, 48, 49, 50, 51, 52, 53, 54, 55],
             drawn := 80\<rparr>)"
  by (simp add: demo_rotated_def demo_filled_eq changePassword_def)
     (simp add: demo_defs upt_rec char_of_def bit_Suc_0_iff)


subsection \<open>Rotation: which key seals the records\<close>

text \<open>
  C1. The claim: after a successful \<open>changePassword(newPassword, db, [collection])\<close> every
  record of the collection is stored sealed under the key of \<open>newPassword\<close> and the newly
  persisted salt, so that the new password opens it and the old one no longer does. The
  code at the README's scenario does the opposite. The inner loop sets \<open>masterKey\<close> back to
  \<open>oldKey\<close> before it decrypts and does not set the new key again before
  \<open>storeEncrypted\<close>: the call succeeds, a new salt (bytes 40 to 55) replaces the old one
  (bytes 0 to 15), the instance keeps the old key, and both records are sealed again, with
  fresh nonces, under the old key. An instance built from \<open>p2\<close> and the persisted salt fails
  to decrypt them; an instance built from \<open>p1\<close> and the old salt still reads \<open>X\<close> and \<open>Y\<close>.
\<close>

theorem changePassword_reseals_under_old_key:
  "fst demo_rotated = Inr ()
   \<and> masterKey (fst (snd demo_rotated)) = masterKey (fst demo_filled)
   \<and> salt_record (snd demo_filled) = Some [0, 1, 2, 3, 4, 5, 6, 7, 8, 9, 10, 11, 12, 13, 14, 15]
   \<and> salt_record (snd (snd demo_rotated))
       = Some [40, 41, 42, 43, 44, 45, 46, 47, 48, 49, 50, 51, 52, 53, 54, 55]
   \<and> objectStore ''db'' ''c'' (snd (snd demo_rotated))
       = Inr [(''a'', \<lparr>encryptedData =
                         [112, 49, 0, 1, 2, 3, 4, 5, 6, 7, 8, 9, 10, 11, 12, 13, 14, 15,
                          56, 57, 58, 59, 60, 61, 62, 63, 64, 65, 66, 67, 34, 88, 34],
                       iv = [56, 57, 58, 59, 60, 61, 62, 63, 64, 65, 66, 67],
                       timestamp = 1000\<rparr>),
              (''b'', \<lparr>encryptedData =
                         [112, 49, 0, 1, 2, 3, 4, 5, 6, 7, 8, 9, 10, 11, 12, 13, 14, 15,
                          68, 69, 70, 71, 72, 73, 74, 75, 76, 77, 78, 79, 34, 89, 34],
                       iv = [68, 69, 70, 71, 72, 73, 74, 75, 76, 77, 78, 79],
                       timestamp = 1000\<rparr>)]
   \<and> decrypt demo_platform
        (Some [112, 49, 0, 1, 2, 3, 4, 5, 6, 7, 8, 9, 10, 11, 12, 13, 14, 15,
               56, 57, 58, 59, 60, 61, 62, 63, 64, 65, 66, 67, 34, 88, 34])
        (Some [56, 57, 58, 59, 60, 61, 62, 63, 64, 65, 66, 67])
        (fst (SecureStorage demo_platform ''p2''
                (Some [40, 41, 42, 43, 44, 45, 46, 47, 48, 49, 50, 51, 52, 53, 54, 55])
                (snd (snd demo_rotated))))
       = Inl DecryptFailed
   \<and> decrypt demo_platform
        (Some [112, 49, 0, 1, 2, 3, 4, 5, 6, 7, 8, 9, 10, 11, 12, 13, 14, 15,
               68, 69, 70, 71, 72, 73, 74, 75, 76, 77, 78, 79, 34, 89, 34])
        (Some [68, 69, 70, 71, 72, 73, 74, 75, 76, 77, 78, 79])
        (fst (SecureStorage demo_platform ''p2''
                (Some [40, 41, 42, 43, 44, 45, 46, 47, 48, 49, 50, 51, 52, 53, 54, 55])
                (snd (snd demo_rotated))))
       = Inl DecryptFailed
   \<and> decrypt demo_platform
        (Some [112, 49, 0, 1, 2, 3, 4, 5, 6, 7, 8, 9, 10, 11, 12, 13, 14, 15,
               56, 57, 58, 59, 60, 61, 62, 63, 64, 65, 66, 67, 34, 88, 34])
        (Some [56, 57, 58, 59, 60, 61, 62, 63, 64, 65, 66, 67])
        (fst (SecureStorage demo_platform ''p1''
                (Some [0, 1, 2, 3, 4, 5, 6, 7, 8, 9, 10, 11, 12, 13, 14, 15])
                (snd (snd demo_rotated))))
       = Inr ''X''
   \<and> decrypt demo_platform
        (Some [112, 49, 0, 1, 2, 3, 4, 5, 6, 7, 8, 9, 10, 11, 12, 13, 14, 15,
               68, 69, 70, 71, 72, 73, 74, 75, 76, 77, 78, 79, 34, 89, 34])
        (Some [68, 69, 70, 71, 72, 73, 74, 75, 76, 77, 78, 79])
        (fst (SecureStorage demo_platform ''p1''
                (Some [0, 1, 2, 3, 4, 5, 6, 7, 8, 9, 10, 11, 12, 13, 14, 15])
                (snd (snd demo_rotated))))
       = Inr ''Y''"
  by (simp add: demo_rotated_eq demo_filled_eq)
     (simp add: demo_defs char_of_def bit_Suc_0_iff)

subsection \<open>Initialization and the salt\<close>

text \<open>
  C2, as the code has it. \<open>initialize\<close> with no salt never reads the salt record: when it
  succeeds, the key is derived from the next \<open>SALT_LENGTH\<close> bytes of the random generator,
  those bytes are what the salt record holds afterwards, and the outcome is the same
  whatever the salt record held before.
\<close>

theorem initialize_generates_salt:
  "initialize P password None (inst, w) = (Inr (), inst', w') \<Longrightarrow>
     masterKey inst' = deriveKey P (TextEncoder_encode P password)
                         (map (entropy w) [drawn w ..< drawn w + 16])
     \<and> masterKey inst' \<noteq> None
     \<and> salt_record w' = Some (map (entropy w) [drawn w ..< drawn w + 16])
     \<and> drawn w' = drawn w + 16
     \<and> initialize P password None (inst, w\<lparr>salt_record := persisted\<rparr>) = (Inr (), inst', w')"
  by (auto simp: initialize_def saveSecurityParams_def openSecurityDb_def Let_def
                 getRandomValues_def SALT_LENGTH_def
           split: option.splits if_splits prod.splits)

text \<open>
  C2, at a concrete input: a second \<open>initialize('p1')\<close> in the browser that \<open>demo_new\<close> left
  (salt record: bytes 0 to 15) succeeds with the salt of bytes 16 to 31, and does the same
  when the salt record is empty.
\<close>

theorem initialize_generates_salt_witness:
  "initialize demo_platform ''p1'' None (\<lparr>masterKey = None, ready = True\<rparr>, snd demo_new)
     = (Inr (),
        \<lparr>masterKey =
           Some [112, 49, 16, 17, 18, 19, 20, 21, 22, 23, 24, 25, 26, 27, 28, 29, 30, 31],
          ready = True\<rparr>,
        (snd demo_new)\<lparr>salt_record :=
                          Some [16, 17, 18, 19, 20, 21, 22, 23, 24, 25, 26, 27, 28, 29, 30, 31],
                        drawn := 32\<rparr>)
   \<and> initialize demo_platform ''p1'' None
        (\<lparr>masterKey = None, ready = True\<rparr>, (snd demo_new)\<lparr>salt_record := None\<rparr>)
     = (Inr (),
        \<lparr>masterKey =
           Some [112, 49, 16, 17, 18, 19, 20, 21, 22, 23, 24, 25, 26, 27, 28, 29, 30, 31],
          ready = True\<rparr>,
        (snd demo_new)\<lparr>salt_record :=
                          Some [16, 17, 18, 19, 20, 21, 22, 23, 24, 25, 26, 27, 28, 29, 30, 31],
                        drawn := 32\<rparr>)"
proof -
  have run:
    "initialize demo_platform ''p1'' None (\<lparr>masterKey = None, ready = True\<rparr>, snd demo_new)
     = (Inr (),
        \<lparr>masterKey =
           Some [112, 49, 16, 17, 18, 19, 20, 21, 22, 23, 24, 25, 26, 27, 28, 29, 30, 31],
          ready = True\<rparr>,
        (snd demo_new)\<lparr>salt_record :=
                          Some [16, 17, 18, 19, 20, 21, 22, 23, 24, 25, 26, 27, 28, 29, 30, 31],
                        drawn := 32\<rparr>)"
    by (simp add: demo_new_eq) (simp add: demo_defs upt_rec)
  from initialize_generates_salt [OF run, of None] run show ?thesis
    by simp
qed

text \<open>
  C2, the claim refuted. The claim: with no salt supplied, initialization first loads the
  persisted salt and generates one only when none is persisted. In the browser that
  \<open>demo_new\<close> left, the salt record holds bytes 0 to 15; \<open>initialize('p1')\<close> with no salt
  succeeds, installs the key of the fresh salt (bytes 16 to 31), which is not the key of
  the persisted salt, and overwrites the salt record.
\<close>

theorem initialize_ignores_persisted_salt:
  "salt_record (snd demo_new) = Some [0, 1, 2, 3, 4, 5, 6, 7, 8, 9, 10, 11, 12, 13, 14, 15]
   \<and> fst (initialize demo_platform ''p1'' None (\<lparr>masterKey = None, ready = True\<rparr>, snd demo_new))
       = Inr ()
   \<and> masterKey (fst (snd (initialize demo_platform ''p1'' None
                            (\<lparr>masterKey = None, ready = True\<rparr>, snd demo_new))))
       \<noteq> deriveKey demo_platform (TextEncoder_encode demo_platform ''p1'')
            [0, 1, 2, 3, 4, 5, 6, 7, 8, 9, 10, 11, 12, 13, 14, 15]
   \<and> masterKey (fst (snd (initialize demo_platform ''p1'' None
                            (\<lparr>masterKey = None, ready = True\<rparr>, snd demo_new))))
       = deriveKey demo_platform (TextEncoder_encode demo_platform ''p1'')
            [16, 17, 18, 19, 20, 21, 22, 23, 24, 25, 26, 27, 28, 29, 30, 31]
   \<and> salt_record (snd (snd (initialize demo_platform ''p1'' None
                              (\<lparr>masterKey = None, ready = True\<rparr>, snd demo_new))))
       = Some [16, 17, 18, 19, 20, 21, 22, 23, 24, 25, 26, 27, 28, 29, 30, 31]"
  by (simp add: demo_new_eq) (simp add: demo_defs upt_rec)

text \<open>
  C10. Constructing the store writes the salt it used to the salt record: when the
  constructor's initialization has succeeded (\<open>ready\<close> fulfilled), the salt record holds the
  salt the installed key was derived from, which is the supplied salt when one was supplied
  (the generated one otherwise), whatever the record held before. The same holds for every
  successful call of \<open>initialize\<close>, also those of \<open>changePassword\<close>.
\<close>

theorem constructor_persists_salt:
  "(SecureStorage P password providedSalt w = (inst, w') \<and> ready inst
      \<longrightarrow> (let salt = (case providedSalt of
                         Some salt \<Rightarrow> salt
                       | None \<Rightarrow> fst (getRandomValues SALT_LENGTH w))
           in salt_record w' = Some salt
              \<and> masterKey inst = deriveKey P (TextEncoder_encode P password) salt
              \<and> masterKey inst \<noteq> None))
   \<and> (initialize P password providedSalt (inst0, w0) = (Inr (), inst1, w1)
      \<longrightarrow> (let salt = (case providedSalt of
                         Some salt \<Rightarrow> salt
                       | None \<Rightarrow> fst (getRandomValues SALT_LENGTH w0))
           in salt_record w1 = Some salt
              \<and> masterKey inst1 = deriveKey P (TextEncoder_encode P password) salt
              \<and> masterKey inst1 \<noteq> None))"
proof -
  have i: "initialize P password providedSalt (a, b) = (Inr (), c, d) \<longrightarrow>
      (let salt = (case providedSalt of
                         Some salt \<Rightarrow> salt
                       | None \<Rightarrow> fst (getRandomValues SALT_LENGTH b))
           in salt_record d = Some salt
              \<and> masterKey c = deriveKey P (TextEncoder_encode P password) salt
              \<and> masterKey c \<noteq> None)" for a b c d
    by (auto simp: initialize_def saveSecurityParams_def openSecurityDb_def Let_def
                   getRandomValues_def
             split: option.splits if_splits prod.splits)
  have c: "SecureStorage P password providedSalt w = (inst, w') \<and> ready inst
      \<longrightarrow> (let salt = (case providedSalt of
                         Some salt \<Rightarrow> salt
                       | None \<Rightarrow> fst (getRandomValues SALT_LENGTH w))
           in salt_record w' = Some salt
              \<and> masterKey inst = deriveKey P (TextEncoder_encode P password) salt
              \<and> masterKey inst \<noteq> None)"
  proof (intro impI, elim conjE)
    assume s: "SecureStorage P password providedSalt w = (inst, w')" and r: "ready inst"
    obtain res i1 w1 where
      run: "initialize P password providedSalt (\<lparr>masterKey = None, ready = True\<rparr>, w)
              = (res, i1, w1)"
      by (cases "initialize P password providedSalt (\<lparr>masterKey = None, ready = True\<rparr>, w)")
    have "SecureStorage P password providedSalt w
            = (case initialize P password providedSalt (\<lparr>masterKey = None, ready = True\<rparr>, w) of
                 (Inl e, inst, w') \<Rightarrow> (inst\<lparr>ready := False\<rparr>, w')
               | (Inr u, inst, w') \<Rightarrow> (inst\<lparr>ready := True\<rparr>, w'))"
      by (rule SecureStorage_def)
    with s run have settled:
      "(case res of Inl e \<Rightarrow> (i1\<lparr>ready := False\<rparr>, w1) | Inr u \<Rightarrow> (i1\<lparr>ready := True\<rparr>, w1))
         = (inst, w')"
      by (cases res) simp_all
    have ok: "res = Inr ()"
    proof (cases res)
      case (Inl e)
      with settled r show ?thesis by auto
    next
      case (Inr u)
      then show ?thesis by simp
    qed
    with settled have eq: "inst = i1\<lparr>ready := True\<rparr>" "w' = w1"
      by simp_all
    from eq have mk: "masterKey inst = masterKey i1" by simp
    from i [of "\<lparr>masterKey = None, ready = True\<rparr>" w i1 w1] run ok
    have "let salt = (case providedSalt of
                         Some salt \<Rightarrow> salt
                       | None \<Rightarrow> fst (getRandomValues SALT_LENGTH w))
           in salt_record w1 = Some salt
              \<and> masterKey i1 = deriveKey P (TextEncoder_encode P password) salt
              \<and> masterKey i1 \<noteq> None"
      by blast
    then show "let salt = (case providedSalt of
                         Some salt \<Rightarrow> salt
                       | None \<Rightarrow> fst (getRandomValues SALT_LENGTH w))
           in salt_record w' = Some salt
              \<and> masterKey inst = deriveKey P (TextEncoder_encode P password) salt
              \<and> masterKey inst \<noteq> None"
      unfolding mk eq(2) .
  qed
  from c i [of inst0 w0 inst1 w1] show ?thesis by blast
qed

text \<open>
  C10, at a concrete input: \<open>new SecureStorage('p1', salt)\<close> with a salt of sixteen bytes 9,
  in the browser of \<open>demo_filled\<close> whose salt record holds bytes 0 to 15. The constructor's
  initialization succeeds, the key is the one of the supplied salt, and the salt record
  holds the supplied salt.
\<close>

theorem constructor_persists_salt_witness:
  "SecureStorage demo_platform ''p1'' (Some [9, 9, 9, 9, 9, 9, 9, 9, 9, 9, 9, 9, 9, 9, 9, 9])
       (snd demo_filled)
     = (\<lparr>masterKey = Some [112, 49, 9, 9, 9, 9, 9, 9, 9, 9, 9, 9, 9, 9, 9, 9, 9, 9],
          ready = True\<rparr>,
        (snd demo_filled)\<lparr>salt_record := Some [9, 9, 9, 9, 9, 9, 9, 9, 9, 9, 9, 9, 9, 9, 9, 9]\<rparr>)
   \<and> salt_record (snd demo_filled) = Some [0, 1, 2, 3, 4, 5, 6, 7, 8, 9, 10, 11, 12, 13, 14, 15]
   \<and> salt_record
        (snd (SecureStorage demo_platform ''p1''
                (Some [9, 9, 9, 9, 9, 9, 9, 9, 9, 9, 9, 9, 9, 9, 9, 9]) (snd demo_filled)))
       = Some [9, 9, 9, 9, 9, 9, 9, 9, 9, 9, 9, 9, 9, 9, 9, 9]
   \<and> masterKey
        (fst (SecureStorage demo_platform ''p1''
                (Some [9, 9, 9, 9, 9, 9, 9, 9, 9, 9, 9, 9, 9, 9, 9, 9]) (snd demo_filled)))
       = deriveKey demo_platform (TextEncoder_encode demo_platform ''p1'')
           [9, 9, 9, 9, 9, 9, 9, 9, 9, 9, 9, 9, 9, 9, 9, 9]"
proof -
  have run:
    "SecureStorage demo_platform ''p1'' (Some [9, 9, 9, 9, 9, 9, 9, 9, 9, 9, 9, 9, 9, 9, 9, 9])
       (snd demo_filled)
     = (\<lparr>masterKey = Some [112, 49, 9, 9, 9, 9, 9, 9, 9, 9, 9, 9, 9, 9, 9, 9, 9, 9],
          ready = True\<rparr>,
        (snd demo_filled)\<lparr>salt_record := Some [9, 9, 9, 9, 9, 9, 9, 9, 9, 9, 9, 9, 9, 9, 9, 9]\<rparr>)"
    by (simp add: demo_filled_eq) (simp add: demo_defs)
  have old: "salt_record (snd demo_filled)
               = Some [0, 1, 2, 3, 4, 5, 6, 7, 8, 9, 10, 11, 12, 13, 14, 15]"
    by (simp add: demo_filled_eq)
  have r: "ready \<lparr>masterKey = Some [112, 49, 9, 9, 9, 9, 9, 9, 9, 9, 9, 9, 9, 9, 9, 9, 9, 9 :: byte],
                  ready = True\<rparr>"
    by simp
  note c = constructor_persists_salt
             [of demo_platform "''p1''" "Some [9, 9, 9, 9, 9, 9, 9, 9, 9, 9, 9, 9, 9, 9, 9, 9]"
                 "snd demo_filled", THEN conjunct1, rule_format, OF conjI, OF run r]
  from c run old show ?thesis
    by (simp add: Let_def)
qed

subsection \<open>Rotation: failures and the empty list\<close>

lemma recrypt_stores_append:
  "recrypt_stores P k pw db xs s = (Inl e, s') \<Longrightarrow>
     recrypt_stores P k pw db (xs @ ys) s = (Inl e, s')"
proof (induction xs arbitrary: s)
  case Nil
  then show ?case by simp
next
  case (Cons x xs)
  then show ?case
    by (auto split: sum.splits prod.splits unit.splits)
qed

text \<open>
  C3, as the code has it. One \<open>try\<close> encloses the loop over the stores, so the first failure
  ends the rotation: when \<open>changePassword\<close> fails on a list of stores, the caller gets the
  single error "Impossible de changer le mot de passe", and the call on that list followed
  by any further stores returns the same error and leaves the same state; the further
  stores are not opened, read or written.
\<close>

theorem changePassword_stops_at_failure:
  "masterKey inst = Some k \<Longrightarrow>
   fst (changePassword P newPassword dbName storeNames (inst, w)) = Inl e \<Longrightarrow>
     e = ChangePasswordFailed
     \<and> changePassword P newPassword dbName (storeNames @ others) (inst, w)
         = changePassword P newPassword dbName storeNames (inst, w)"
proof -
  assume k: "masterKey inst = Some k"
    and f: "fst (changePassword P newPassword dbName storeNames (inst, w)) = Inl e"
  obtain r s' where r: "recrypt_stores P k newPassword dbName storeNames (inst, w) = (r, s')"
    by (cases "recrypt_stores P k newPassword dbName storeNames (inst, w)")
  with k f obtain e' where e': "r = Inl e'"
    by (cases r) (simp_all add: changePassword_def)
  from recrypt_stores_append [OF r [unfolded e']]
  have "recrypt_stores P k newPassword dbName (storeNames @ others) (inst, w) = (Inl e', s')" .
  with k f r e' show ?thesis
    by (simp add: changePassword_def)
qed

text \<open>
  C3, at a concrete input: the rotation of store \<open>a\<close> of \<open>demo_two_stores\<close>, whose record
  is damaged, fails, and the rotation of \<open>a\<close> then \<open>b\<close> is the same call.
\<close>

theorem changePassword_stops_at_failure_witness:
  "masterKey (fst demo_two_stores)
     = Some [112, 49, 0, 1, 2, 3, 4, 5, 6, 7, 8, 9, 10, 11, 12, 13, 14, 15]
   \<and> fst (changePassword demo_platform ''p2'' ''db'' [''a''] demo_two_stores)
       = Inl ChangePasswordFailed
   \<and> changePassword demo_platform ''p2'' ''db'' ([''a''] @ [''b'']) demo_two_stores
       = changePassword demo_platform ''p2'' ''db'' [''a''] demo_two_stores"
proof -
  have k: "masterKey (fst demo_two_stores)
     = Some [112, 49, 0, 1, 2, 3, 4, 5, 6, 7, 8, 9, 10, 11, 12, 13, 14, 15]"
    by (simp add: demo_two_stores_def demo_new_eq)
  have f: "fst (changePassword demo_platform ''p2'' ''db'' [''a'']
                  (fst demo_two_stores, snd demo_two_stores))
             = Inl ChangePasswordFailed"
    by (simp add: demo_two_stores_def demo_new_eq changePassword_def)
       (simp add: demo_defs upt_rec)
  from changePassword_stops_at_failure [OF k f, of "[''b'']"] k f show ?thesis
    by simp
qed

text \<open>
  C3, the claim refuted. The claim: a failure in one collection does not prevent the
  rotation from attempting the collections after it. In \<open>demo_two_stores\<close> the rotation of
  \<open>a\<close> then \<open>b\<close> fails on the damaged record of \<open>a\<close>; store \<open>b\<close> is then exactly as it was,
  and the whole call is the call on \<open>a\<close> alone; yet the rotation of \<open>b\<close> alone succeeds and
  rewrites the record of \<open>b\<close>, so an attempt on \<open>b\<close> would have shown.
\<close>

theorem changePassword_skips_later_stores:
  "fst (changePassword demo_platform ''p2'' ''db'' [''a'', ''b''] demo_two_stores)
     = Inl ChangePasswordFailed
   \<and> objectStore ''db'' ''b''
        (snd (snd (changePassword demo_platform ''p2'' ''db'' [''a'', ''b''] demo_two_stores)))
       = objectStore ''db'' ''b'' (snd demo_two_stores)
   \<and> changePassword demo_platform ''p2'' ''db'' [''a'', ''b''] demo_two_stores
       = changePassword demo_platform ''p2'' ''db'' [''a''] demo_two_stores
   \<and> fst (changePassword demo_platform ''p2'' ''db'' [''b''] demo_two_stores) = Inr ()
   \<and> objectStore ''db'' ''b''
        (snd (snd (changePassword demo_platform ''p2'' ''db'' [''b''] demo_two_stores)))
       \<noteq> objectStore ''db'' ''b'' (snd demo_two_stores)"
  by (simp add: demo_two_stores_def demo_new_eq changePassword_def)
     (simp add: demo_defs upt_rec char_of_def bit_Suc_0_iff)

text \<open>
  C6. \<open>changePassword\<close> on an instance whose \<open>masterKey\<close> is \<open>null\<close> throws
  "Cle de chiffrement actuelle non initialisee" at once: the instance (key and readiness)
  and the browser's state (every record, the salt record, the random generator) are the ones
  before the call.
\<close>

theorem changePassword_without_key:
  "masterKey inst = None \<Longrightarrow>
     changePassword P newPassword dbName storeNames (inst, w)
       = (Inl CurrentKeyNotInitialized, inst, w)"
  by (simp add: changePassword_def)

text \<open>
  C6, at a concrete input: an instance whose key derivation has failed, asked to rotate the
  store \<open>c\<close> of \<open>db\<close>.
\<close>

theorem changePassword_without_key_witness:
  "masterKey \<lparr>masterKey = None :: bytes option, ready = False\<rparr> = None
   \<and> changePassword demo_platform ''p2'' ''db'' [''c'']
        (\<lparr>masterKey = None, ready = False\<rparr>, world0)
       = (Inl CurrentKeyNotInitialized, \<lparr>masterKey = None, ready = False\<rparr>, world0)"
  using changePassword_without_key
          [of "\<lparr>masterKey = None, ready = False\<rparr>" demo_platform "''p2''" "''db''"
              "[''c'']" world0]
  by simp

text \<open>
  C9, as the code has it. \<open>changePassword(newPassword, db, [])\<close> never changes anything:
  the instance and the browser's state (records, salt record, random generator) are the
  ones before the call. It succeeds when the instance has a key, and throws
  "Cle de chiffrement actuelle non initialisee" when it has none. This holds for every
  platform, also one whose key derivation always fails: no key is derived.
\<close>

theorem changePassword_no_stores:
  "changePassword P newPassword dbName [] (inst, w)
     = (if masterKey inst = None then Inl CurrentKeyNotInitialized else Inr (), inst, w)"
  by (simp add: changePassword_def split: option.splits)

text \<open>
  C9, the claim refuted. The claim: the call with an empty list succeeds. On an instance
  whose \<open>masterKey\<close> is \<open>null\<close> it throws: right after the constructor has returned, while
  its \<open>initialize\<close> is still pending (\<open>changePassword\<close> does not await \<open>ready\<close>), and after a
  key derivation that has failed, whatever \<open>ready\<close> has become.
\<close>

theorem changePassword_no_stores_without_key:
  "fst (changePassword demo_platform ''p2'' ''db'' []
          (\<lparr>masterKey = None, ready = True\<rparr>, world0)) = Inl CurrentKeyNotInitialized
   \<and> fst (changePassword demo_platform ''p2'' ''db'' []
          (\<lparr>masterKey = None, ready = False\<rparr>, world0)) = Inl CurrentKeyNotInitialized"
  by (simp add: changePassword_def)

subsection \<open>encrypt and decrypt\<close>



lemma encrypt_nonce:
  "encrypt P d (inst, w) = (Inr (ct, nonce), w') \<Longrightarrow>
     nonce = map (entropy w) [drawn w ..< drawn w + IV_LENGTH]
     \<and> drawn w' = drawn w + IV_LENGTH \<and> entropy w' = entropy w"
  by (auto simp: encrypt_def getRandomValues_def Let_def split: option.splits if_splits)

lemma encrypt_each_nonces:
  "encrypt_each P ds (inst, w) = (rs, w') \<Longrightarrow> \<forall>r \<in> set rs. \<not> isl r \<Longrightarrow>
     map (\<lambda>r. snd (projr r)) rs = map (random_block w) [0 ..< length ds]"
proof (induction ds arbitrary: w rs w')
  case Nil
  then show ?case by simp
next
  case (Cons d ds)
  obtain r w1 where e: "encrypt P d (inst, w) = (r, w1)" by (cases "encrypt P d (inst, w)")
  obtain rs1 w2 where t: "encrypt_each P ds (inst, w1) = (rs1, w2)"
    by (cases "encrypt_each P ds (inst, w1)")
  from Cons.prems(1) e t have rs: "rs = r # rs1" by simp
  with Cons.prems(2) have ok: "\<not> isl r" and oks: "\<forall>r \<in> set rs1. \<not> isl r" by simp_all
  from ok obtain ct nonce where r: "r = Inr (ct, nonce)" by (cases r) auto
  from encrypt_nonce [OF e [unfolded r]]
  have n: "nonce = random_block w 0"
    and d: "drawn w1 = drawn w + IV_LENGTH" and en: "entropy w1 = entropy w"
    by (simp_all add: random_block_def)
  have "random_block w1 i = random_block w (Suc i)" for i
    by (simp add: random_block_def d en add.assoc)
  with Cons.IH [OF t oks]
  have tl: "map (\<lambda>r. snd (projr r)) rs1 = map (\<lambda>i. random_block w (Suc i)) [0 ..< length ds]"
    by simp
  show ?case
    using tl by (simp add: rs r n map_upt_Suc del: upt_Suc)
qed

lemma encrypt_failed:
  "encrypt P d (inst, w) = (Inl e, w1) \<Longrightarrow>
     w1 = w \<or> (drawn w1 = drawn w + IV_LENGTH \<and> entropy w1 = entropy w)"
  by (auto simp: encrypt_def getRandomValues_def Let_def split: option.splits if_splits)

lemma random_block_shift:
  "drawn w1 = drawn w + IV_LENGTH \<Longrightarrow> entropy w1 = entropy w \<Longrightarrow>
     random_block w1 i = random_block w (Suc i)"
  by (simp add: random_block_def add.assoc)

lemma subseq_distinct: "subseq xs ys \<Longrightarrow> distinct ys \<Longrightarrow> distinct xs"
proof (induction rule: list_emb.induct)
  case (list_emb_Nil ys)
  then show ?case by simp
next
  case (list_emb_Cons xs ys y)
  then show ?case by simp
next
  case (list_emb_Cons2 x y xs ys)
  then have "x \<notin> set ys" by simp
  moreover from list_emb_Cons2 have "set xs \<subseteq> set ys" by (auto dest: list_emb_set)
  ultimately show ?case using list_emb_Cons2 by auto
qed

lemma encrypt_each_subseq:
  "encrypt_each P ds (inst, w) = (rs, w') \<Longrightarrow>
     subseq (nonces rs) (map (random_block w) [0 ..< length ds])"
proof (induction ds arbitrary: w rs w')
  case Nil
  then show ?case by (simp add: nonces_def)
next
  case (Cons d ds)
  obtain r w1 where e: "encrypt P d (inst, w) = (r, w1)" by (cases "encrypt P d (inst, w)")
  obtain rs1 w2 where t: "encrypt_each P ds (inst, w1) = (rs1, w2)"
    by (cases "encrypt_each P ds (inst, w1)")
  from Cons.prems e t have rs: "rs = r # rs1" by simp
  note IH = Cons.IH [OF t]
  show ?case
  proof (cases r)
    case (Inr c)
    obtain ct nonce where c: "c = (ct, nonce)" by (cases c)
    from encrypt_nonce [OF e [unfolded Inr c]]
    have n: "nonce = random_block w 0"
      and d: "drawn w1 = drawn w + IV_LENGTH" and en: "entropy w1 = entropy w"
      by (simp_all add: random_block_def)
    from IH have "subseq (nonces rs1) (map (\<lambda>i. random_block w (Suc i)) [0 ..< length ds])"
      by (simp add: random_block_shift [OF d en])
    then show ?thesis
      by (simp add: rs Inr c n nonces_def map_upt_Suc del: upt_Suc)
  next
    case (Inl err)
    from encrypt_failed [OF e [unfolded Inl]]
    consider "w1 = w" | "drawn w1 = drawn w + IV_LENGTH" "entropy w1 = entropy w" by blast
    then show ?thesis
    proof cases
      case 1
      with IH have "subseq (nonces rs1) (map (random_block w) [0 ..< length ds])" by simp
      then have "subseq (nonces rs1) (map (random_block w) [0 ..< length ds] @ [random_block w (length ds)])"
        by (rule subseq_rev_drop_many)
      then show ?thesis by (simp add: rs Inl nonces_def)
    next
      case 2
      from IH have "subseq (nonces rs1) (map (\<lambda>i. random_block w (Suc i)) [0 ..< length ds])"
        by (simp add: random_block_shift [OF 2])
      then have "subseq (nonces rs1)
                   (random_block w 0 # map (\<lambda>i. random_block w (Suc i)) [0 ..< length ds])"
        by (rule list_emb_Cons)
      then show ?thesis by (simp add: rs Inl nonces_def map_upt_Suc del: upt_Suc)
    qed
  qed
qed


text \<open>
  C5. In every run of \<open>encrypt\<close> calls on one instance, whatever the data and the key and
  whichever calls fail, the nonces of the calls that return one are, in the order of the
  calls, blocks of \<open>IV_LENGTH\<close> = 12 bytes that \<open>crypto.getRandomValues\<close> delivers from the
  start of the run, each block later in the generator's output than the one before: each
  call draws its own block, none is drawn twice and none is computed from the data. When all
  \<open>N\<close> calls succeed, the nonce of the \<open>i\<close>-th call is the \<open>i\<close>-th block. Hence every nonce
  has 12 bytes, and whenever the generator's blocks are pairwise distinct, so are the nonces
  and the results (ciphertext, nonce), also for equal plaintexts. That the blocks of the
  generator do not repeat is the generator's part, a matter of probability that the code
  relies on and that is assumed here.
\<close>

theorem encrypt_nonces_fresh:
  assumes "encrypt_each P ds (inst, w) = (rs, w')"
  shows "subseq (nonces rs) (map (random_block w) [0 ..< length ds])
         \<and> (\<forall>n \<in> set (nonces rs). length n = IV_LENGTH)
         \<and> ((\<forall>r \<in> set rs. \<not> isl r)
              \<longrightarrow> map (\<lambda>r. snd (projr r)) rs = map (random_block w) [0 ..< length ds])
         \<and> (distinct (map (random_block w) [0 ..< length ds])
              \<longrightarrow> distinct (nonces rs) \<and> distinct (filter (\<lambda>r. \<not> isl r) rs))"
proof -
  have s: "subseq (nonces rs) (map (random_block w) [0 ..< length ds])"
    using assms by (rule encrypt_each_subseq)
  have l: "\<forall>n \<in> set (nonces rs). length n = IV_LENGTH"
  proof
    fix n assume "n \<in> set (nonces rs)"
    with s obtain b where "b \<in> set (map (random_block w) [0 ..< length ds])" and "n = b"
      by (rule list_emb_set)
    then show "length n = IV_LENGTH" by (auto simp: random_block_def)
  qed
  have a: "(\<forall>r \<in> set rs. \<not> isl r)
              \<longrightarrow> map (\<lambda>r. snd (projr r)) rs = map (random_block w) [0 ..< length ds]"
    using assms by (blast intro: encrypt_each_nonces)
  have d: "distinct (nonces rs) \<and> distinct (filter (\<lambda>r. \<not> isl r) rs)"
    if "distinct (map (random_block w) [0 ..< length ds])"
  proof -
    from s that have "distinct (nonces rs)" by (rule subseq_distinct)
    then show ?thesis by (simp add: nonces_def distinct_map)
  qed
  from s l a d show ?thesis by blast
qed

text \<open>
  C5, at a concrete input: \<open>encrypt('X')\<close>, then \<open>encrypt\<close> of a value that
  \<open>JSON.stringify\<close> throws on, then \<open>encrypt('X')\<close> again, on the instance of \<open>demo_new\<close>.
  The two nonces returned are the generator's next two blocks, and they differ.
\<close>

theorem encrypt_nonces_fresh_witness:
  "encrypt_each demo_platform [''X'', ''!'', ''X''] demo_new
     = ([Inr ([112, 49, 0, 1, 2, 3, 4, 5, 6, 7, 8, 9, 10, 11, 12, 13, 14, 15,
               16, 17, 18, 19, 20, 21, 22, 23, 24, 25, 26, 27, 34, 88, 34],
              [16, 17, 18, 19, 20, 21, 22, 23, 24, 25, 26, 27]),
         Inl EncryptFailed,
         Inr ([112, 49, 0, 1, 2, 3, 4, 5, 6, 7, 8, 9, 10, 11, 12, 13, 14, 15,
               28, 29, 30, 31, 32, 33, 34, 35, 36, 37, 38, 39, 34, 88, 34],
              [28, 29, 30, 31, 32, 33, 34, 35, 36, 37, 38, 39])],
        (snd demo_new)\<lparr>drawn := 40\<rparr>)
   \<and> map (random_block (snd demo_new)) [0, 1, 2]
       = [[16, 17, 18, 19, 20, 21, 22, 23, 24, 25, 26, 27],
          [28, 29, 30, 31, 32, 33, 34, 35, 36, 37, 38, 39],
          [40, 41, 42, 43, 44, 45, 46, 47, 48, 49, 50, 51]]
   \<and> nonces (fst (encrypt_each demo_platform [''X'', ''!'', ''X''] demo_new))
       = [[16, 17, 18, 19, 20, 21, 22, 23, 24, 25, 26, 27],
          [28, 29, 30, 31, 32, 33, 34, 35, 36, 37, 38, 39]]
   \<and> distinct (nonces (fst (encrypt_each demo_platform [''X'', ''!'', ''X''] demo_new)))"
proof -
  have run: "encrypt_each demo_platform [''X'', ''!'', ''X''] (fst demo_new, snd demo_new)
     = ([Inr ([112, 49, 0, 1, 2, 3, 4, 5, 6, 7, 8, 9, 10, 11, 12, 13, 14, 15,
               16, 17, 18, 19, 20, 21, 22, 23, 24, 25, 26, 27, 34, 88, 34],
              [16, 17, 18, 19, 20, 21, 22, 23, 24, 25, 26, 27]),
         Inl EncryptFailed,
         Inr ([112, 49, 0, 1, 2, 3, 4, 5, 6, 7, 8, 9, 10, 11, 12, 13, 14, 15,
               28, 29, 30, 31, 32, 33, 34, 35, 36, 37, 38, 39, 34, 88, 34],
              [28, 29, 30, 31, 32, 33, 34, 35, 36, 37, 38, 39])],
        (snd demo_new)\<lparr>drawn := 40\<rparr>)"
    by (simp add: demo_new_eq) (simp add: demo_defs upt_rec)
  have blocks: "map (random_block (snd demo_new)) [0 ..< length [''X'', ''!'', ''X'']]
       = [[16, 17, 18, 19, 20, 21, 22, 23, 24, 25, 26, 27],
          [28, 29, 30, 31, 32, 33, 34, 35, 36, 37, 38, 39],
          [40, 41, 42, 43, 44, 45, 46, 47, 48, 49, 50, 51]]"
    by (simp add: demo_new_eq random_block_def world0_def IV_LENGTH_def upt_rec)
  have blocks': "map (random_block (snd demo_new)) [0, 1, 2]
       = [[16, 17, 18, 19, 20, 21, 22, 23, 24, 25, 26, 27],
          [28, 29, 30, 31, 32, 33, 34, 35, 36, 37, 38, 39],
          [40, 41, 42, 43, 44, 45, 46, 47, 48, 49, 50, 51]]"
    by (simp add: demo_new_eq random_block_def world0_def IV_LENGTH_def upt_rec)
  have dist: "distinct [[16, 17, 18, 19, 20, 21, 22, 23, 24, 25, 26, 27],
          [28, 29, 30, 31, 32, 33, 34, 35, 36, 37, 38, 39],
          [40, 41, 42, 43, 44, 45, 46, 47, 48, 49, 50, 51 :: byte]]"
    by simp
  note fresh = encrypt_nonces_fresh [OF run, unfolded blocks]
  from fresh dist have d: "distinct (nonces [Inr ([112, 49, 0, 1, 2, 3, 4, 5, 6, 7, 8, 9, 10, 11, 12, 13, 14, 15,
               16, 17, 18, 19, 20, 21, 22, 23, 24, 25, 26, 27, 34, 88, 34],
              [16, 17, 18, 19, 20, 21, 22, 23, 24, 25, 26, 27]),
         Inl EncryptFailed,
         Inr ([112, 49, 0, 1, 2, 3, 4, 5, 6, 7, 8, 9, 10, 11, 12, 13, 14, 15,
               28, 29, 30, 31, 32, 33, 34, 35, 36, 37, 38, 39, 34, 88, 34],
              [28, 29, 30, 31, 32, 33, 34, 35, 36, 37, 38, 39])])"
    by blast
  from run have run': "encrypt_each demo_platform [''X'', ''!'', ''X''] demo_new
     = ([Inr ([112, 49, 0, 1, 2, 3, 4, 5, 6, 7, 8, 9, 10, 11, 12, 13, 14, 15,
               16, 17, 18, 19, 20, 21, 22, 23, 24, 25, 26, 27, 34, 88, 34],
              [16, 17, 18, 19, 20, 21, 22, 23, 24, 25, 26, 27]),
         Inl EncryptFailed,
         Inr ([112, 49, 0, 1, 2, 3, 4, 5, 6, 7, 8, 9, 10, 11, 12, 13, 14, 15,
               28, 29, 30, 31, 32, 33, 34, 35, 36, 37, 38, 39, 34, 88, 34],
              [28, 29, 30, 31, 32, 33, 34, 35, 36, 37, 38, 39])],
        (snd demo_new)\<lparr>drawn := 40\<rparr>)"
    by simp
  have n: "nonces [Inr ([112, 49, 0, 1, 2, 3, 4, 5, 6, 7, 8, 9, 10, 11, 12, 13, 14, 15,
               16, 17, 18, 19, 20, 21, 22, 23, 24, 25, 26, 27, 34, 88, 34 :: byte],
              [16, 17, 18, 19, 20, 21, 22, 23, 24, 25, 26, 27 :: byte]),
         Inl EncryptFailed,
         Inr ([112, 49, 0, 1, 2, 3, 4, 5, 6, 7, 8, 9, 10, 11, 12, 13, 14, 15,
               28, 29, 30, 31, 32, 33, 34, 35, 36, 37, 38, 39, 34, 88, 34],
              [28, 29, 30, 31, 32, 33, 34, 35, 36, 37, 38, 39])]
       = [[16, 17, 18, 19, 20, 21, 22, 23, 24, 25, 26, 27],
          [28, 29, 30, 31, 32, 33, 34, 35, 36, 37, 38, 39]]"
    by (simp add: nonces_def)
  show ?thesis
    unfolding run' fst_conv n using d blocks' by (simp add: n)
qed


subsection \<open>retrieveDecrypted and the errors the caller sees\<close>



text \<open>
  C7. The claim: \<open>retrieveDecrypted\<close> for a key under which nothing was stored returns
  \<open>null\<close> and raises nothing, as the method's own documentation says. The code at the
  README's scenario: the store \<open>c\<close> of \<open>db\<close> holds the records \<open>a\<close> and \<open>b\<close> and none of key
  \<open>zz\<close>, the database opens and the store exists, yet \<open>retrieveDecrypted('db', 'c', 'zz')\<close>
  throws "Impossible de recuperer les donnees dechiffrees". The awaited value is the
  request object of \<open>store.get\<close>, never \<open>undefined\<close>, so \<open>return null\<close> is not reached and
  \<open>decrypt\<close> is called on two \<open>undefined\<close> arguments.
\<close>

theorem retrieveDecrypted_missing_key_fails:
  "objectStore ''db'' ''c'' (snd demo_filled)
     = Inr [(''a'', \<lparr>encryptedData =
                       [112, 49, 0, 1, 2, 3, 4, 5, 6, 7, 8, 9, 10, 11, 12, 13, 14, 15,
                        16, 17, 18, 19, 20, 21, 22, 23, 24, 25, 26, 27, 34, 88, 34],
                     iv = [16, 17, 18, 19, 20, 21, 22, 23, 24, 25, 26, 27],
                     timestamp = 1000\<rparr>),
            (''b'', \<lparr>encryptedData =
                       [112, 49, 0, 1, 2, 3, 4, 5, 6, 7, 8, 9, 10, 11, 12, 13, 14, 15,
                        28, 29, 30, 31, 32, 33, 34, 35, 36, 37, 38, 39, 34, 89, 34],
                     iv = [28, 29, 30, 31, 32, 33, 34, 35, 36, 37, 38, 39],
                     timestamp = 1000\<rparr>)]
   \<and> retrieveDecrypted demo_platform ''db'' ''c'' ''zz'' demo_filled
       = (Inl RetrieveFailed, snd demo_filled)"
  by (simp add: demo_filled_eq retrieveDecrypted_def)
     (simp add: demo_defs get_def)









end
